theory Spec2Isabelle
  imports Complex_Main "HOL-Library.Word"
begin

section \<open>Exceptions, external calls and the world\<close>

text \<open>
  The module \<^verbatim>\<open>lleaves/lleaves.py\<close> defines one class, \<^verbatim>\<open>Model\<close>. Every
  Python exception is a value: a method returns \<open>Inl e\<close> where the source raises (or lets
  an exception of a collaborator through) and \<open>Inr v\<close> where it returns \<open>v\<close>.
  \<^verbatim>\<open>ValueError\<close> is the only exception the module raises itself; the other
  constructors stand for what the interpreter and the libraries it calls raise.
  \<open>SegmentationFault\<close> is not an exception: it is the end of the process when a null
  function pointer is called.
\<close>

datatype exn =
    ValueError string
  | TypeError string
  | FileNotFoundError string
  | LibraryError string
  | SegmentationFault

text \<open>
  The calls the module makes into its collaborators (the frontend, llvmlite, the file
  system, the compiled native function) are recorded, oldest first, the way a test double
  counts invocations.
\<close>

datatype event =
    Call_ir_from_model_file
  | Call_initialize_target
  | Call_parse_assembly string
  | Call_verify
  | Call_pm_run
  | Call_create_mcjit_compiler
  | Call_add_module
  | Call_finalize_object
  | Call_run_static_constructors
  | Call_get_function_address string
  | Call_entry_func nat int
  | Call_read_text string
  | Call_write_text string

text \<open>
  The file system: \<open>files w p\<close> is what \<^verbatim>\<open>Path(p).read_text()\<close> returns or raises,
  and \<open>write_error w p\<close> is what \<^verbatim>\<open>Path(p).write_text(...)\<close> raises, if anything.
\<close>

record world =
  calls :: "event list"
  files :: "string \<Rightarrow> exn + string"
  write_error :: "string \<Rightarrow> exn option"

definition called :: "event \<Rightarrow> world \<Rightarrow> world" where
  "called ev w = w\<lparr>calls := calls w @ [ev]\<rparr>"

definition count_calls :: "event \<Rightarrow> world \<Rightarrow> nat" where
  "count_calls ev w = count_list (calls w) ev"

fun is_entry_call :: "event \<Rightarrow> bool" where
  "is_entry_call (Call_entry_func addr n) = True"
| "is_entry_call ev = False"

definition native_calls :: "world \<Rightarrow> event list" where
  "native_calls w = filter is_entry_call (calls w)"

fun is_parse_call :: "event \<Rightarrow> bool" where
  "is_parse_call (Call_parse_assembly t) = True"
| "is_parse_call ev = False"

definition parse_calls :: "world \<Rightarrow> nat" where
  "parse_calls w = length (filter is_parse_call (calls w))"

section \<open>Arrays and the data handed to predict\<close>

text \<open>
  A numpy array is its shape and its elements in C (row-major) index order, which is the
  order \<^verbatim>\<open>data.reshape(data.size)\<close> reads them in. The element type is
  \<^verbatim>\<open>float64\<close> exactly when the buffer is a \<open>Float64\<close> one. Double-precision values
  are a type parameter \<open>'d\<close>: the module does no arithmetic on them. Strides and the
  address of the buffer are not part of the model.
\<close>

datatype ('d, 'x) buffer = Float64 "'d list" | Other "'x list"

record ('d, 'x) ndarray =
  shape :: "nat list"
  elems :: "('d, 'x) buffer"

datatype ('d, 'x, 'l) pyobj =
    PyList 'l
  | PyTuple 'l
  | PyNdarray "('d, 'x) ndarray"
  | PyNone

section \<open>The collaborators\<close>

record general_info =
  objective :: string
  max_feature_idx :: int

text \<open>
  Everything \<^verbatim>\<open>lleaves.py\<close> imports is a parameter of the model: each function of
  the record below is one external call of the source, returning \<open>Inl e\<close> (or \<open>Some e\<close>
  for a call without a result) where it raises \<open>e\<close>. The type parameters are
  \<open>'f\<close> (an \<^verbatim>\<open>llvm.ir.Module\<close>), \<open>'m\<close> (an \<^verbatim>\<open>llvm.ModuleRef\<close>),
  \<open>'g\<close> (the state of an execution engine), \<open>'d\<close> (a double), \<open>'x\<close> (an array element of
  another type) and \<open>'l\<close> (the contents of a Python list).

  \<^item> \<open>initialize_target\<close> is lines 49 to 55 (\<^verbatim>\<open>llvm.initialize()\<close> to
    \<^verbatim>\<open>target.create_target_machine()\<close>), which take no argument of the model.
  \<^item> \<open>pm_run\<close> is lines 70 to 77: the pass manager, built with its fixed options, run on
    the module, which it changes in place.
  \<^item> \<open>add_module\<close>, \<open>finalize_object\<close> and \<open>run_static_constructors\<close> change the engine
    in place: they return its new state.
  \<^item> \<open>get_function_address\<close> returns a Python integer.
  \<^item> \<open>entry_func a\<close> is the native code at address \<open>a\<close>, called with the input buffer,
    the count (a C \<^verbatim>\<open>int\<close>) and the output buffer: it returns the values it writes,
    from index 0 on, into the output buffer.
  \<^item> \<open>to_float64\<close> converts one element of an array that is not \<^verbatim>\<open>float64\<close>.
\<close>

record ('f, 'm, 'g, 'd, 'x, 'l) env =
  parse_model_file :: "string \<Rightarrow> exn + general_info"
  get_objective_func :: "string \<Rightarrow> exn + ('d \<Rightarrow> 'd)"
  ir_from_model_file :: "string \<Rightarrow> exn + 'f"
  ir_str :: "'f \<Rightarrow> string"
  initialize_target :: "exn option"
  parse_assembly :: "string \<Rightarrow> exn + 'm"
  verify :: "'m \<Rightarrow> exn option"
  pm_run :: "'m \<Rightarrow> exn + 'm"
  module_str :: "'m \<Rightarrow> string"
  create_mcjit_compiler :: "'m \<Rightarrow> exn + 'g"
  add_module :: "'g \<Rightarrow> 'm \<Rightarrow> exn + 'g"
  finalize_object :: "'g \<Rightarrow> exn + 'g"
  run_static_constructors :: "'g \<Rightarrow> exn + 'g"
  get_function_address :: "'g \<Rightarrow> string \<Rightarrow> exn + nat"
  entry_func :: "nat \<Rightarrow> 'd list \<Rightarrow> int \<Rightarrow> 'd list \<Rightarrow> 'd list"
  np_array :: "'l \<Rightarrow> exn + ('d, 'x) ndarray"
  to_float64 :: "'x \<Rightarrow> exn + 'd"

section \<open>The class Model\<close>

text \<open>
  Lines 12 to 22 declare four attributes on the class, each \<^verbatim>\<open>None\<close>. An instance
  has its own dictionary: \<open>None\<close> in a field of \<open>model\<close> below means that the instance has
  no entry of that name, and reading \<^verbatim>\<open>self._x\<close> then finds the attribute of the
  class. No statement of the module assigns to an attribute of the class, so the class is
  a constant.
\<close>

record ('f, 'm, 'g) class_attrs =
  cls_execution_engine :: "'g option"
  cls_IR_module_frontend :: "'f option"
  cls_IR_module :: "'m option"
  cls_c_entry_func :: "nat option"

definition Model_class :: "('f, 'm, 'g) class_attrs" where
  "Model_class =
     \<lparr>cls_execution_engine = None, cls_IR_module_frontend = None,
      cls_IR_module = None, cls_c_entry_func = None\<rparr>"

record ('f, 'm, 'g, 'd) model =
  model_file :: string
  general_info :: general_info
  objective_transf :: "'d \<Rightarrow> 'd"
  execution_engine :: "'g option"
  IR_module_frontend :: "'f option"
  IR_module :: "'m option"
  c_entry_func :: "nat option"

definition getattr :: "'a option \<Rightarrow> 'a option \<Rightarrow> 'a option" where
  "getattr own cls = (case own of Some v \<Rightarrow> Some v | None \<Rightarrow> cls)"

definition self_execution_engine :: "('f, 'm, 'g, 'd) model \<Rightarrow> 'g option" where
  "self_execution_engine self =
     getattr (execution_engine self) (cls_execution_engine (Model_class :: ('f, 'm, 'g) class_attrs))"

definition self_IR_module_frontend :: "('f, 'm, 'g, 'd) model \<Rightarrow> 'f option" where
  "self_IR_module_frontend self =
     getattr (IR_module_frontend self) (cls_IR_module_frontend (Model_class :: ('f, 'm, 'g) class_attrs))"

definition self_IR_module :: "('f, 'm, 'g, 'd) model \<Rightarrow> 'm option" where
  "self_IR_module self =
     getattr (IR_module self) (cls_IR_module (Model_class :: ('f, 'm, 'g) class_attrs))"

definition self_c_entry_func :: "('f, 'm, 'g, 'd) model \<Rightarrow> nat option" where
  "self_c_entry_func self =
     getattr (c_entry_func self) (cls_c_entry_func (Model_class :: ('f, 'm, 'g) class_attrs))"

text \<open>
  \<^verbatim>\<open>__init__\<close> (lines 24 to 29). The objective function is a numpy ufunc.

  Modelled from the spec: \<^verbatim>\<open>get_objective_func\<close> of
  \<^verbatim>\<open>lleaves.tree_compiler.objective_funcs\<close> is not part of the source at hand;
  the specification calls its result a pure elementwise function, so it is a function on
  one double, mapped over the array by \<open>predict\<close>.
\<close>

definition init ::
  "('f, 'm, 'g, 'd, 'x, 'l) env \<Rightarrow> string \<Rightarrow> exn + ('f, 'm, 'g, 'd) model" where
  "init env mf =
     (case parse_model_file env mf of
        Inl e \<Rightarrow> Inl e
      | Inr gi \<Rightarrow>
          (case get_objective_func env (objective gi) of
             Inl e \<Rightarrow> Inl e
           | Inr f \<Rightarrow>
               Inr \<lparr>model_file = mf, general_info = gi, objective_transf = f,
                    execution_engine = None, IR_module_frontend = None,
                    IR_module = None, c_entry_func = None\<rparr>))"

definition num_feature :: "('f, 'm, 'g, 'd) model \<Rightarrow> int" where
  "num_feature self = max_feature_idx (general_info self) + 1"

text \<open>
  A method takes the world and the instance and returns its result, the world and the
  instance as the call leaves them.
\<close>

type_synonym ('f, 'm, 'g, 'd) state = "world \<times> ('f, 'm, 'g, 'd) model"

text \<open>
  \<^verbatim>\<open>_get_ir_from_frontend\<close> (lines 35 to 38). An \<^verbatim>\<open>llvm.ir.Module\<close> defines
  neither \<^verbatim>\<open>__bool__\<close> nor \<^verbatim>\<open>__len__\<close>: it is true.
\<close>

definition get_ir_from_frontend ::
  "('f, 'm, 'g, 'd, 'x, 'l) env \<Rightarrow> ('f, 'm, 'g, 'd) state \<Rightarrow> (exn + 'f) \<times> ('f, 'm, 'g, 'd) state" where
  "get_ir_from_frontend env s =
     (case s of (w, self) \<Rightarrow>
       (case self_IR_module_frontend self of
          Some ir \<Rightarrow> (Inr ir, w, self)
        | None \<Rightarrow>
            (case ir_from_model_file env (model_file self) of
               Inl e \<Rightarrow> (Inl e, called Call_ir_from_model_file w, self)
             | Inr ir \<Rightarrow>
                 (Inr ir, called Call_ir_from_model_file w,
                  self\<lparr>IR_module_frontend := Some ir\<rparr>))))"

text \<open>
  \<^verbatim>\<open>_get_execution_engine\<close> (lines 40 to 59). An engine and a module reference are
  llvmlite object references, true while they hold a handle.
\<close>

definition get_execution_engine ::
  "('f, 'm, 'g, 'd, 'x, 'l) env \<Rightarrow> ('f, 'm, 'g, 'd) state \<Rightarrow> (exn + 'g) \<times> ('f, 'm, 'g, 'd) state" where
  "get_execution_engine env s =
     (case s of (w, self) \<Rightarrow>
       (case self_execution_engine self of
          Some eng \<Rightarrow> (Inr eng, w, self)
        | None \<Rightarrow>
            (let w1 = called Call_initialize_target w in
             case initialize_target env of
               Some e \<Rightarrow> (Inl e, w1, self)
             | None \<Rightarrow>
                 (let w2 = called (Call_parse_assembly []) w1 in
                  case parse_assembly env [] of
                    Inl e \<Rightarrow> (Inl e, w2, self)
                  | Inr backing_mod \<Rightarrow>
                      (let w3 = called Call_create_mcjit_compiler w2 in
                       case create_mcjit_compiler env backing_mod of
                         Inl e \<Rightarrow> (Inl e, w3, self)
                       | Inr eng \<Rightarrow> (Inr eng, w3, self\<lparr>execution_engine := Some eng\<rparr>))))))"

text \<open>\<^verbatim>\<open>_get_optimized_module\<close> (lines 61 to 79).\<close>

definition get_optimized_module ::
  "('f, 'm, 'g, 'd, 'x, 'l) env \<Rightarrow> ('f, 'm, 'g, 'd) state \<Rightarrow> (exn + 'm) \<times> ('f, 'm, 'g, 'd) state" where
  "get_optimized_module env s =
     (case s of (w, self) \<Rightarrow>
       (case self_IR_module self of
          Some md \<Rightarrow> (Inr md, w, self)
        | None \<Rightarrow>
            (case get_ir_from_frontend env (w, self) of
               (Inl e, s1) \<Rightarrow> (Inl e, s1)
             | (Inr ir, w1, self1) \<Rightarrow>
                 (let w2 = called (Call_parse_assembly (ir_str env ir)) w1 in
                  case parse_assembly env (ir_str env ir) of
                    Inl e \<Rightarrow> (Inl e, w2, self1)
                  | Inr md \<Rightarrow>
                      (let w3 = called Call_verify w2 in
                       case verify env md of
                         Some e \<Rightarrow> (Inl e, w3, self1)
                       | None \<Rightarrow>
                           (let w4 = called Call_pm_run w3 in
                            case pm_run env md of
                              Inl e \<Rightarrow> (Inl e, w4, self1)
                            | Inr md' \<Rightarrow> (Inr md', w4, self1\<lparr>IR_module := Some md'\<rparr>)))))))"

text \<open>
  \<^verbatim>\<open>save_model_ir\<close> (lines 81 to 91): the optimized module, got as above, is written
  as text. \<^verbatim>\<open>load_model_ir\<close> (lines 93 to 103): the text is read, parsed and only
  then assigned.
\<close>

definition save_model_ir ::
  "('f, 'm, 'g, 'd, 'x, 'l) env \<Rightarrow> ('f, 'm, 'g, 'd) state \<Rightarrow> string \<Rightarrow> (exn + unit) \<times> ('f, 'm, 'g, 'd) state" where
  "save_model_ir env s filepath =
     (case get_optimized_module env s of
        (Inl e, s1) \<Rightarrow> (Inl e, s1)
      | (Inr md, w1, self1) \<Rightarrow>
          (let w2 = called (Call_write_text filepath) w1 in
           case write_error w1 filepath of
             Some e \<Rightarrow> (Inl e, w2, self1)
           | None \<Rightarrow>
               (Inr (), w2\<lparr>files := (files w1)(filepath := Inr (module_str env md))\<rparr>, self1)))"

definition load_model_ir ::
  "('f, 'm, 'g, 'd, 'x, 'l) env \<Rightarrow> ('f, 'm, 'g, 'd) state \<Rightarrow> string \<Rightarrow> (exn + unit) \<times> ('f, 'm, 'g, 'd) state" where
  "load_model_ir env s filepath =
     (case s of (w, self) \<Rightarrow>
       (let w1 = called (Call_read_text filepath) w in
        case files w filepath of
          Inl e \<Rightarrow> (Inl e, w1, self)
        | Inr ir \<Rightarrow>
            (let w2 = called (Call_parse_assembly ir) w1 in
             case parse_assembly env ir of
               Inl e \<Rightarrow> (Inl e, w2, self)
             | Inr md \<Rightarrow> (Inr (), w2, self\<lparr>IR_module := Some md\<rparr>))))"

text \<open>
  \<^verbatim>\<open>compile\<close> (lines 105 to 125). The test of line 110 is the truth value of a
  ctypes function pointer, which is false for the null pointer as it is for
  \<^verbatim>\<open>None\<close>. The engine is changed in place by lines 115 to 118; the instance holds
  the only reference to it.
\<close>

definition entry_present :: "('f, 'm, 'g, 'd) model \<Rightarrow> bool" where
  "entry_present self =
     (case self_c_entry_func self of None \<Rightarrow> False | Some addr \<Rightarrow> addr \<noteq> 0)"

definition compile ::
  "('f, 'm, 'g, 'd, 'x, 'l) env \<Rightarrow> ('f, 'm, 'g, 'd) state \<Rightarrow> (exn + unit) \<times> ('f, 'm, 'g, 'd) state" where
  "compile env s =
     (case s of (w, self) \<Rightarrow>
       if entry_present self then (Inr (), w, self)
       else
         (case get_execution_engine env (w, self) of
            (Inl e, s1) \<Rightarrow> (Inl e, s1)
          | (Inr eng, s1) \<Rightarrow>
              (case get_optimized_module env s1 of
                 (Inl e, s2) \<Rightarrow> (Inl e, s2)
               | (Inr md, w2, self2) \<Rightarrow>
                   (let w3 = called Call_add_module w2 in
                    case add_module env eng md of
                      Inl e \<Rightarrow> (Inl e, w3, self2)
                    | Inr eng1 \<Rightarrow>
                        (let w4 = called Call_finalize_object w3 in
                         case finalize_object env eng1 of
                           Inl e \<Rightarrow> (Inl e, w4, self2\<lparr>execution_engine := Some eng1\<rparr>)
                         | Inr eng2 \<Rightarrow>
                             (let w5 = called Call_run_static_constructors w4 in
                              case run_static_constructors env eng2 of
                                Inl e \<Rightarrow> (Inl e, w5, self2\<lparr>execution_engine := Some eng2\<rparr>)
                              | Inr eng3 \<Rightarrow>
                                  (let w6 = called (Call_get_function_address ''forest_root'') w5;
                                       self3 = self2\<lparr>execution_engine := Some eng3\<rparr> in
                                   case get_function_address env eng3 ''forest_root'' of
                                     Inl e \<Rightarrow> (Inl e, w6, self3)
                                   | Inr addr \<Rightarrow>
                                       (Inr (), w6, self3\<lparr>c_entry_func := Some addr\<rparr>))))))))"

text \<open>
  \<^verbatim>\<open>_to_1d_ndarray\<close> (lines 138 to 157). Any exception of \<^verbatim>\<open>np.array\<close> on
  a list becomes a \<^verbatim>\<open>ValueError\<close>; one raised while an array of another element
  type is converted is not caught. The messages are the source's, without the values it
  formats into them.
\<close>

fun astype_float64 :: "('x \<Rightarrow> exn + 'd) \<Rightarrow> 'x list \<Rightarrow> exn + 'd list" where
  "astype_float64 conv [] = Inr []"
| "astype_float64 conv (x # xs) =
     (case conv x of
        Inl e \<Rightarrow> Inl e
      | Inr d \<Rightarrow>
          (case astype_float64 conv xs of Inl e \<Rightarrow> Inl e | Inr ds \<Rightarrow> Inr (d # ds)))"

definition to_1d_ndarray ::
  "('f, 'm, 'g, 'd, 'x, 'l) env \<Rightarrow> ('d, 'x, 'l) pyobj \<Rightarrow> exn + ('d list \<times> nat)" where
  "to_1d_ndarray env arg =
     (case (case arg of
              PyList l \<Rightarrow>
                (case np_array env l of
                   Inl e \<Rightarrow> Inl (ValueError ''Cannot convert data list to appropriate np array'')
                 | Inr a \<Rightarrow> Inr (PyNdarray a))
            | other \<Rightarrow> Inr other) of
        Inl e \<Rightarrow> Inl e
      | Inr (PyNdarray a) \<Rightarrow>
          (case shape a of
             [n_preds, n_cols] \<Rightarrow>
               (case elems a of
                  Float64 ds \<Rightarrow> Inr (ds, n_preds)
                | Other xs \<Rightarrow>
                    (case astype_float64 (to_float64 env) xs of
                       Inl e \<Rightarrow> Inl e
                     | Inr ds \<Rightarrow> Inr (ds, n_preds)))
           | other_shape \<Rightarrow> Inl (ValueError ''Data must be 2 dimensional''))
      | Inr other \<Rightarrow> Inl (ValueError ''Expecting list or numpy.ndarray''))"

text \<open>
  \<^verbatim>\<open>predict\<close> (lines 127 to 136). The recorded call holds the arguments as line
  135 passes them. ctypes converts the Python integer \<^verbatim>\<open>n_preds\<close> to the C
  \<^verbatim>\<open>int\<close> that the native code receives, without an overflow check, and calls the
  address the function pointer holds without testing it. The native function
  writes into the buffer of \<^verbatim>\<open>preds\<close>, whose length it cannot change; what it
  writes past the end is not part of the model, nor is a failure to allocate.
\<close>

definition c_int :: "int \<Rightarrow> int" where
  "c_int n = sint (word_of_int n :: 32 word)"

definition written :: "'d list \<Rightarrow> 'd list \<Rightarrow> 'd list" where
  "written buf vs = take (length buf) vs @ drop (length vs) buf"

definition predict ::
  "('f, 'm, 'g, 'd::zero, 'x, 'l) env \<Rightarrow> ('f, 'm, 'g, 'd) state \<Rightarrow> ('d, 'x, 'l) pyobj
     \<Rightarrow> (exn + 'd list) \<times> ('f, 'm, 'g, 'd) state" where
  "predict env s arg =
     (case compile env s of
        (Inl e, s1) \<Rightarrow> (Inl e, s1)
      | (Inr u, w1, self1) \<Rightarrow>
          (case to_1d_ndarray env arg of
             Inl e \<Rightarrow> (Inl e, w1, self1)
           | Inr (buf, n_preds) \<Rightarrow>
               (let preds = replicate n_preds 0 in
                case self_c_entry_func self1 of
                  None \<Rightarrow> (Inl (TypeError ''NoneType object is not callable''), w1, self1)
                | Some addr \<Rightarrow>
                    (let w2 = called (Call_entry_func addr (int n_preds)) w1;
                         preds' = written preds (entry_func env addr buf (c_int (int n_preds)) preds)
                     in if addr = 0 then (Inl SegmentationFault, w2, self1)
                        else (Inr (map (objective_transf self1) preds'), w2, self1)))))"

section \<open>Sequences of calls\<close>

text \<open>
  \<open>compile_times env N\<close> is \<^verbatim>\<open>compile()\<close> called \<open>N\<close> times in a row on one
  instance by a caller that catches what a call raises and calls again; its result is the
  result of the last call.
\<close>

fun compile_times ::
  "('f, 'm, 'g, 'd, 'x, 'l) env \<Rightarrow> nat \<Rightarrow> ('f, 'm, 'g, 'd) state \<Rightarrow> (exn + unit) \<times> ('f, 'm, 'g, 'd) state" where
  "compile_times env 0 s = (Inr (), s)"
| "compile_times env (Suc n) s =
     (case compile env s of
        (r, s1) \<Rightarrow> if n = 0 then (r, s1) else compile_times env n s1)"

text \<open>
  A program holds several instances of \<open>Model\<close>. A statement creates one
  (\<^verbatim>\<open>Model(model_file)\<close>) or calls a method on the instance of an index; the caller
  catches what the method raises and goes on. A program that ends earlier, on an
  exception it does not catch or on a fault, has run a prefix of such a list.
\<close>

datatype ('d, 'x, 'l) method_call =
    Do_compile
  | Do_predict "('d, 'x, 'l) pyobj"
  | Do_save_model_ir string
  | Do_load_model_ir string
  | Do_get_ir_from_frontend
  | Do_get_execution_engine
  | Do_get_optimized_module

fun invoke ::
  "('f, 'm, 'g, 'd::zero, 'x, 'l) env \<Rightarrow> ('d, 'x, 'l) method_call \<Rightarrow> ('f, 'm, 'g, 'd) state
     \<Rightarrow> ('f, 'm, 'g, 'd) state" where
  "invoke env Do_compile s = snd (compile env s)"
| "invoke env (Do_predict arg) s = snd (predict env s arg)"
| "invoke env (Do_save_model_ir filepath) s = snd (save_model_ir env s filepath)"
| "invoke env (Do_load_model_ir filepath) s = snd (load_model_ir env s filepath)"
| "invoke env Do_get_ir_from_frontend s = snd (get_ir_from_frontend env s)"
| "invoke env Do_get_execution_engine s = snd (get_execution_engine env s)"
| "invoke env Do_get_optimized_module s = snd (get_optimized_module env s)"

datatype ('d, 'x, 'l) statement =
    New string
  | On nat "('d, 'x, 'l) method_call"

record ('f, 'm, 'g, 'd) program_state =
  the_world :: world
  instances :: "('f, 'm, 'g, 'd) model list"

fun exec ::
  "('f, 'm, 'g, 'd::zero, 'x, 'l) env \<Rightarrow> ('d, 'x, 'l) statement \<Rightarrow> ('f, 'm, 'g, 'd) program_state
     \<Rightarrow> ('f, 'm, 'g, 'd) program_state" where
  "exec env (New mf) p =
     (case init env mf of
        Inl e \<Rightarrow> p
      | Inr self \<Rightarrow> p\<lparr>instances := instances p @ [self]\<rparr>)"
| "exec env (On i c) p =
     (if i < length (instances p)
      then (case invoke env c (the_world p, instances p ! i) of
              (w1, self1) \<Rightarrow> \<lparr>the_world = w1, instances = (instances p)[i := self1]\<rparr>)
      else p)"

fun run ::
  "('f, 'm, 'g, 'd::zero, 'x, 'l) env \<Rightarrow> ('d, 'x, 'l) statement list \<Rightarrow> ('f, 'm, 'g, 'd) program_state
     \<Rightarrow> ('f, 'm, 'g, 'd) program_state" where
  "run env [] p = p"
| "run env (st # sts) p = run env sts (exec env st p)"

fun acts_on :: "nat \<Rightarrow> ('d, 'x, 'l) statement \<Rightarrow> bool" where
  "acts_on j (New mf) = False"
| "acts_on j (On i c) = (i = j)"

text \<open>The four cached attributes, as \<^verbatim>\<open>self._x\<close> reads them.\<close>

definition cached ::
  "('f, 'm, 'g, 'd) model \<Rightarrow> 'g option \<times> 'f option \<times> 'm option \<times> nat option" where
  "cached self =
     (self_execution_engine self, self_IR_module_frontend self, self_IR_module self,
      self_c_entry_func self)"

section \<open>Predicates of the statements\<close>

text \<open>
  \<open>raised_by_collaborator env e\<close>: some call that \<open>compile\<close> makes into a collaborator
  raises \<open>e\<close>. \<open>flat_float64 env a buf\<close>: \<open>buf\<close> holds the elements of \<open>a\<close> in row-major
  order as doubles: the elements themselves where the array is \<^verbatim>\<open>float64\<close>, and
  otherwise, element by element, the double that \<open>to_float64\<close> converts it to.
\<close>

definition raised_by_collaborator :: "('f, 'm, 'g, 'd, 'x, 'l) env \<Rightarrow> exn \<Rightarrow> bool" where
  "raised_by_collaborator env e \<longleftrightarrow>
     initialize_target env = Some e \<or>
     (\<exists>t. parse_assembly env t = Inl e) \<or>
     (\<exists>md. create_mcjit_compiler env md = Inl e) \<or>
     (\<exists>f. ir_from_model_file env f = Inl e) \<or>
     (\<exists>md. verify env md = Some e) \<or>
     (\<exists>md. pm_run env md = Inl e) \<or>
     (\<exists>g md. add_module env g md = Inl e) \<or>
     (\<exists>g. finalize_object env g = Inl e) \<or>
     (\<exists>g. run_static_constructors env g = Inl e) \<or>
     (\<exists>g. get_function_address env g ''forest_root'' = Inl e)"

definition flat_float64 ::
  "('f, 'm, 'g, 'd, 'x, 'l) env \<Rightarrow> ('d, 'x) ndarray \<Rightarrow> 'd list \<Rightarrow> bool" where
  "flat_float64 env a buf =
     (case elems a of
        Float64 ds \<Rightarrow> buf = ds
      | Other xs \<Rightarrow> map (to_float64 env) xs = map Inr buf)"

section \<open>A test double\<close>

text \<open>
  One instance of the collaborators, on which the theorems below are exercised. An IR
  module is the name of the one function it defines; an engine is the list of modules
  added to it, and adding a module a second time raises, as llvmlite does; a symbol that
  no module of the engine defines resolves to the null address 0, as the lookup of the
  MCJIT engine does, and \<open>forest_root\<close> resolves to 4096. The native function writes,
  for every row, the first of its three features. The text \<open>garbage\<close> does not parse. Two variants fail in one stage: in
  one the frontend raises, in the other the verifier does.
\<close>

definition test_env :: "(string, string, string list, real, int, real list list) env" where
  "test_env =
     \<lparr>parse_model_file = (\<lambda>f. Inr \<lparr>objective = ''regression'', max_feature_idx = 2\<rparr>),
      get_objective_func = (\<lambda>name. Inr (\<lambda>x. x)),
      ir_from_model_file = (\<lambda>f. Inr ''forest_root''),
      ir_str = (\<lambda>ir. ir),
      initialize_target = None,
      parse_assembly =
        (\<lambda>t. if t = ''garbage'' then Inl (LibraryError ''LLVM IR parsing error'') else Inr t),
      verify = (\<lambda>md. None),
      pm_run = (\<lambda>md. Inr md),
      module_str = (\<lambda>md. md),
      create_mcjit_compiler = (\<lambda>md. Inr []),
      add_module =
        (\<lambda>g md. if md \<in> set g then Inl (LibraryError ''module already added to this engine'')
                else Inr (md # g)),
      finalize_object = Inr,
      run_static_constructors = Inr,
      get_function_address = (\<lambda>g name. Inr (if name \<in> set g then 4096 else 0)),
      entry_func = (\<lambda>addr buf n out. map (\<lambda>i. buf ! (3 * i)) [0..<nat n]),
      np_array =
        (\<lambda>rows. case rows of
           [] \<Rightarrow> Inr \<lparr>shape = [0], elems = Float64 []\<rparr>
         | r # rs \<Rightarrow> Inr \<lparr>shape = [length rows, length r], elems = Float64 (concat rows)\<rparr>),
      to_float64 = (\<lambda>x. Inr (of_int x))\<rparr>"

definition failing_frontend_env ::
  "(string, string, string list, real, int, real list list) env" where
  "failing_frontend_env =
     test_env\<lparr>ir_from_model_file := (\<lambda>f. Inl (LibraryError ''unsupported model''))\<rparr>"

definition failing_verify_env ::
  "(string, string, string list, real, int, real list list) env" where
  "failing_verify_env =
     test_env\<lparr>verify := (\<lambda>md. Some (LibraryError ''verification failed''))\<rparr>"

definition no_files :: "string \<Rightarrow> exn + string" where
  "no_files = (\<lambda>p. Inl (FileNotFoundError p))"

definition new_world :: world where
  "new_world = \<lparr>calls = [], files = no_files, write_error = (\<lambda>p. None)\<rparr>"

definition stored_world :: world where
  "stored_world =
     \<lparr>calls = [],
      files = no_files(''other.ll'' := Inr ''other_root'', ''bad.ll'' := Inr ''garbage''),
      write_error = (\<lambda>p. None)\<rparr>"

definition fresh_model :: "(string, string, string list, real) model" where
  "fresh_model =
     \<lparr>model_file = ''model.txt'',
      general_info = \<lparr>objective = ''regression'', max_feature_idx = 2\<rparr>,
      objective_transf = (\<lambda>x. x),
      execution_engine = None, IR_module_frontend = None, IR_module = None,
      c_entry_func = None\<rparr>"

definition compiled_world :: world where
  "compiled_world =
     \<lparr>calls = [Call_initialize_target, Call_parse_assembly [], Call_create_mcjit_compiler,
               Call_ir_from_model_file, Call_parse_assembly ''forest_root'', Call_verify,
               Call_pm_run, Call_add_module, Call_finalize_object,
               Call_run_static_constructors, Call_get_function_address ''forest_root''],
      files = no_files, write_error = (\<lambda>p. None)\<rparr>"

definition compiled_model :: "(string, string, string list, real) model" where
  "compiled_model =
     fresh_model\<lparr>execution_engine := Some [''forest_root''],
                 IR_module_frontend := Some ''forest_root'',
                 IR_module := Some ''forest_root'', c_entry_func := Some 4096\<rparr>"

definition batch_2x3 :: "(real, int) ndarray" where
  "batch_2x3 = \<lparr>shape = [2, 3], elems = Float64 [1, 2, 3, 4, 5, 6]\<rparr>"

definition int_batch_2x3 :: "(real, int) ndarray" where
  "int_batch_2x3 = \<lparr>shape = [2, 3], elems = Other [1, 2, 3, 4, 5, 6]\<rparr>"

definition row_of_two :: "(real, int) ndarray" where
  "row_of_two = \<lparr>shape = [1, 2], elems = Float64 [1, 2]\<rparr>"

definition vector_of_three :: "(real, int) ndarray" where
  "vector_of_three = \<lparr>shape = [3], elems = Float64 [1, 2, 3]\<rparr>"

definition no_rows :: "(real, int) ndarray" where
  "no_rows = \<lparr>shape = [0, 3], elems = Float64 []\<rparr>"

definition two_models :: "(string, string, string list, real) program_state" where
  "two_models = \<lparr>the_world = new_world, instances = [fresh_model, fresh_model]\<rparr>"

definition populate_first :: "(real, int, real list list) statement list" where
  "populate_first =
     [On 0 Do_compile, New ''other.txt'', On 0 (Do_save_model_ir ''model.ll''),
      On 2 Do_get_execution_engine]"

section \<open>Lemmas about the stages\<close>

text \<open>The class holds \<^verbatim>\<open>None\<close> for each attribute, so a read finds the instance's own entry.\<close>

lemma self_attrs [simp]:
  "self_execution_engine self = execution_engine self"
  "self_IR_module_frontend self = IR_module_frontend self"
  "self_IR_module self = IR_module self"
  "self_c_entry_func self = c_entry_func self"
  by (simp_all add: self_execution_engine_def self_IR_module_frontend_def self_IR_module_def
      self_c_entry_func_def Model_class_def getattr_def split: option.split)

subsection \<open>What each stage leaves alone\<close>

lemma get_ir_from_frontend_frame:
  assumes "get_ir_from_frontend env (w, self) = (r, w1, self1)"
  shows "execution_engine self1 = execution_engine self \<and> IR_module self1 = IR_module self \<and>
         c_entry_func self1 = c_entry_func self \<and> model_file self1 = model_file self \<and>
         general_info self1 = general_info self \<and> objective_transf self1 = objective_transf self \<and>
         files w1 = files w \<and> write_error w1 = write_error w"
  using assms
  by (auto simp: get_ir_from_frontend_def called_def split: option.splits sum.splits)

lemma get_execution_engine_frame:
  assumes "get_execution_engine env (w, self) = (r, w1, self1)"
  shows "IR_module_frontend self1 = IR_module_frontend self \<and> IR_module self1 = IR_module self \<and>
         c_entry_func self1 = c_entry_func self \<and> model_file self1 = model_file self \<and>
         general_info self1 = general_info self \<and> objective_transf self1 = objective_transf self \<and>
         files w1 = files w \<and> write_error w1 = write_error w"
  using assms
  by (auto simp: get_execution_engine_def called_def Let_def split: option.splits sum.splits)

lemma get_optimized_module_frame:
  assumes "get_optimized_module env (w, self) = (r, w1, self1)"
  shows "execution_engine self1 = execution_engine self \<and>
         c_entry_func self1 = c_entry_func self \<and> model_file self1 = model_file self \<and>
         general_info self1 = general_info self \<and> objective_transf self1 = objective_transf self \<and>
         files w1 = files w \<and> write_error w1 = write_error w"
  using assms
  by (auto simp: get_optimized_module_def called_def Let_def get_ir_from_frontend_def
      split: option.splits sum.splits prod.splits)

lemma get_optimized_module_cached:
  assumes "IR_module self = Some md"
  shows "get_optimized_module env (w, self) = (Inr md, w, self)"
  using assms by (simp add: get_optimized_module_def)

subsection \<open>compile: the guard, the entry point, the errors\<close>

lemma compile_present: "entry_present self \<Longrightarrow> compile env (w, self) = (Inr (), w, self)"
  by (simp add: compile_def)

lemma compile_Inl_entry:
  assumes "compile env (w, self) = (Inl e, w1, self1)"
  shows "c_entry_func self1 = c_entry_func self"
  using assms
  by (auto simp: compile_def Let_def split: if_splits option.splits sum.splits prod.splits
      dest!: get_execution_engine_frame get_optimized_module_frame)

lemma compile_Inr_entry:
  assumes "compile env (w, self) = (Inr u, w1, self1)"
  shows "\<exists>addr. c_entry_func self1 = Some addr"
  using assms
  by (auto simp: compile_def entry_present_def Let_def
      split: if_splits option.splits sum.splits prod.splits)

lemma compile_Inr_resolved:
  assumes "compile env (w, self) = (Inr u, w1, self1)" and "\<not> entry_present self"
  shows "\<exists>g a. execution_engine self1 = Some g \<and>
               get_function_address env g ''forest_root'' = Inr a \<and> c_entry_func self1 = Some a"
  using assms
  by (auto simp: compile_def Let_def split: sum.splits prod.splits)

lemma get_execution_engine_raised:
  assumes "get_execution_engine env (w, self) = (Inl e, w1, self1)"
  shows "raised_by_collaborator env e"
  using assms
  by (auto simp: get_execution_engine_def raised_by_collaborator_def Let_def
      split: option.splits sum.splits)

lemma get_optimized_module_raised:
  assumes "get_optimized_module env (w, self) = (Inl e, w1, self1)"
  shows "raised_by_collaborator env e"
  using assms
  by (auto simp: get_optimized_module_def get_ir_from_frontend_def raised_by_collaborator_def
      Let_def split: option.splits sum.splits prod.splits)

lemma compile_raised:
  assumes "compile env (w, self) = (Inl e, w1, self1)"
  shows "raised_by_collaborator env e"
proof -
  have np: "\<not> entry_present self"
    using assms by (auto simp: compile_def)
  obtain r1 wa sa where g: "get_execution_engine env (w, self) = (r1, wa, sa)"
    by (metis prod_cases3)
  obtain r2 wb sb where m: "get_optimized_module env (wa, sa) = (r2, wb, sb)"
    by (metis prod_cases3)
  show ?thesis
  proof (cases r1)
    case (Inl e1)
    with assms np g have "e1 = e" by (simp add: compile_def)
    with g Inl show ?thesis by (auto dest: get_execution_engine_raised)
  next
    case r1: (Inr eng)
    show ?thesis
    proof (cases r2)
      case (Inl e2)
      with assms np g m r1 have "e2 = e" by (simp add: compile_def)
      with m Inl show ?thesis by (auto dest: get_optimized_module_raised)
    next
      case (Inr md)
      with assms np g m r1 show ?thesis
        by (auto simp: compile_def raised_by_collaborator_def Let_def split: sum.splits)
    qed
  qed
qed

subsection \<open>How often the frontend and the optimizer are called\<close>

lemma get_optimized_module_counts:
  assumes "get_optimized_module env (w, self) = (r, w1, self1)"
  shows "count_calls Call_ir_from_model_file w1 \<le> count_calls Call_ir_from_model_file w + 1 \<and>
         count_calls Call_verify w1 \<le> count_calls Call_verify w + 1 \<and>
         count_calls Call_pm_run w1 \<le> count_calls Call_pm_run w + 1 \<and>
         parse_calls w1 \<le> parse_calls w + (if IR_module self = None then 1 else 0)"
  using assms
  by (auto simp: get_optimized_module_def get_ir_from_frontend_def called_def count_calls_def
      parse_calls_def Let_def split: option.splits sum.splits prod.splits)

lemma get_execution_engine_counts:
  assumes "get_execution_engine env (w, self) = (r, w1, self1)"
  shows "count_calls Call_ir_from_model_file w1 = count_calls Call_ir_from_model_file w \<and>
         count_calls Call_verify w1 = count_calls Call_verify w \<and>
         count_calls Call_pm_run w1 = count_calls Call_pm_run w \<and>
         parse_calls w1 \<le> parse_calls w + (if execution_engine self = None then 1 else 0)"
  using assms
  by (auto simp: get_execution_engine_def called_def count_calls_def parse_calls_def Let_def
      split: option.splits sum.splits prod.splits)

lemma compile_counts:
  assumes "compile env (w, self) = (r, w1, self1)"
  shows "count_calls Call_ir_from_model_file w1 \<le> count_calls Call_ir_from_model_file w + 1 \<and>
         count_calls Call_verify w1 \<le> count_calls Call_verify w + 1 \<and>
         count_calls Call_pm_run w1 \<le> count_calls Call_pm_run w + 1 \<and>
         parse_calls w1 \<le> parse_calls w + (if execution_engine self = None then 1 else 0)
                                         + (if IR_module self = None then 1 else 0)"
proof (cases "entry_present self")
  case True
  with assms show ?thesis by (simp add: compile_present)
next
  case False
  obtain r1 wa sa where e: "get_execution_engine env (w, self) = (r1, wa, sa)"
    by (metis prod_cases3)
  obtain r2 wb sb where m: "get_optimized_module env (wa, sa) = (r2, wb, sb)"
    by (metis prod_cases3)
  have sa: "IR_module sa = IR_module self"
    using get_execution_engine_frame [OF e] by simp
  have w1: "r1 = Inl e' \<Longrightarrow> w1 = wa" for e'
    using assms False e by (simp add: compile_def)
  have "count_calls ev w1 = count_calls ev wb"
    if "ev = Call_ir_from_model_file \<or> ev = Call_verify \<or> ev = Call_pm_run" "\<exists>g. r1 = Inr g" for ev
    using assms False e m that
    by (auto simp: compile_def called_def count_calls_def Let_def split: sum.splits)
  moreover have "parse_calls w1 = parse_calls wb" if "\<exists>g. r1 = Inr g"
    using assms False e m that
    by (auto simp: compile_def called_def parse_calls_def Let_def split: sum.splits)
  ultimately show ?thesis
    using get_execution_engine_counts [OF e] get_optimized_module_counts [OF m] w1 sa
    by (cases r1) (auto split: if_splits)
qed

lemma compile_times_present:
  "entry_present self \<Longrightarrow> compile_times env n (w, self) = (Inr (), w, self)"
  by (induction n) (simp_all add: compile_present)

subsection \<open>compile never calls the native function\<close>

lemma get_execution_engine_native:
  assumes "get_execution_engine env (w, self) = (r, w1, self1)"
  shows "native_calls w1 = native_calls w"
  using assms
  by (auto simp: get_execution_engine_def called_def native_calls_def Let_def
      split: option.splits sum.splits)

lemma get_optimized_module_native:
  assumes "get_optimized_module env (w, self) = (r, w1, self1)"
  shows "native_calls w1 = native_calls w"
  using assms
  by (auto simp: get_optimized_module_def get_ir_from_frontend_def called_def native_calls_def
      Let_def split: option.splits sum.splits prod.splits)

lemma compile_native:
  assumes "compile env (w, self) = (r, w1, self1)"
  shows "native_calls w1 = native_calls w"
proof (cases "entry_present self")
  case True
  with assms show ?thesis by (simp add: compile_present)
next
  case False
  obtain r1 wa sa where e: "get_execution_engine env (w, self) = (r1, wa, sa)"
    by (metis prod_cases3)
  obtain r2 wb sb where m: "get_optimized_module env (wa, sa) = (r2, wb, sb)"
    by (metis prod_cases3)
  have "native_calls w1 = native_calls wa \<or> native_calls w1 = native_calls wb"
    using assms False e m
    by (auto simp: compile_def called_def native_calls_def Let_def split: sum.splits)
  then show ?thesis
    using get_execution_engine_native [OF e] get_optimized_module_native [OF m] by auto
qed

subsection \<open>The count handed to the native function, and its output buffer\<close>

lemma c_int_small: "n < 2 ^ 31 \<Longrightarrow> c_int (int n) = int n"
proof -
  assume "n < 2 ^ 31"
  then have "int n < 2 ^ 31" by (metis of_nat_less_iff of_nat_numeral of_nat_power)
  moreover have "- (2 ^ 31) \<le> int n" by simp
  ultimately have "signed_take_bit 31 (int n) = int n"
    by (rule signed_take_bit_int_eq_self [rotated])
  then show ?thesis
    by (simp add: c_int_def signed_of_nat)
qed

lemma c_int_numerals: "c_int 2 = 2" "c_int 1 = 1" "c_int 0 = 0"
  by (simp_all add: c_int_def)

lemma c_int_wraps: "c_int (2 ^ 31) = - (2 ^ 31)"
  by (simp add: c_int_def)

lemma length_written [simp]: "length (written buf vs) = length buf"
  by (simp add: written_def)

subsection \<open>predict after compile\<close>

lemma astype_float64_elementwise:
  assumes "astype_float64 conv xs = Inr ds"
  shows "length ds = length xs \<and> (\<forall>i < length xs. conv (xs ! i) = Inr (ds ! i))"
  using assms
proof (induction xs arbitrary: ds)
  case Nil
  then show ?case by simp
next
  case (Cons x xs)
  from Cons.prems obtain d ds' where d: "conv x = Inr d" "astype_float64 conv xs = Inr ds'" "ds = d # ds'"
    by (auto split: sum.splits)
  from Cons.IH [OF d(2)] d(1,3) show ?case
    by (auto simp: nth_Cons split: nat.splits)
qed

lemma astype_float64_map:
  assumes "map conv xs = map Inr ds"
  shows "astype_float64 conv xs = Inr ds"
  using assms
proof (induction xs arbitrary: ds)
  case Nil
  then show ?case by simp
next
  case (Cons x xs)
  from Cons.prems obtain d ds' where d: "ds = d # ds'" "conv x = Inr d" "map conv xs = map Inr ds'"
    by (cases ds) auto
  from Cons.IH [OF d(3)] d(1,2) show ?case by simp
qed

lemma to_1d_ndarray_2d:
  assumes "arg = PyNdarray a \<or> (\<exists>l. arg = PyList l \<and> np_array env l = Inr a)"
    and "shape a = [n, k]" and "flat_float64 env a buf"
  shows "to_1d_ndarray env arg = Inr (buf, n)"
  using assms
  by (auto simp: to_1d_ndarray_def flat_float64_def astype_float64_map split: buffer.splits)

lemma predict_after_compile:
  assumes "compile env (w, self) = (Inr u, w1, self1)" and "entry_present self1"
    and "to_1d_ndarray env arg = Inr (buf, n)"
  shows "\<exists>addr. c_entry_func self1 = Some addr \<and> addr \<noteq> 0 \<and>
           predict env (w, self) arg =
             (Inr (map (objective_transf self1)
                     (written (replicate n 0) (entry_func env addr buf (c_int (int n)) (replicate n 0)))),
              called (Call_entry_func addr (int n)) w1, self1)"
proof -
  obtain addr where "c_entry_func self1 = Some addr" "addr \<noteq> 0"
    using assms(2) by (auto simp: entry_present_def split: option.splits)
  then show ?thesis
    using assms by (simp add: predict_def Let_def)
qed

lemma predict_null_entry:
  assumes "compile env (w, self) = (Inr u, w1, self1)" and "c_entry_func self1 = Some 0"
    and "to_1d_ndarray env arg = Inr (buf, n)"
  shows "predict env (w, self) arg =
           (Inl SegmentationFault, called (Call_entry_func 0 (int n)) w1, self1)"
  using assms by (simp add: predict_def Let_def)

lemma predict_rejected:
  assumes "compile env (w, self) = (Inr u, w1, self1)" and "to_1d_ndarray env arg = Inl e"
  shows "predict env (w, self) arg = (Inl e, w1, self1)"
  using assms by (simp add: predict_def)

subsection \<open>Statements that act on other instances\<close>

lemma exec_other:
  assumes "j < length (instances p)" and "\<not> acts_on j st"
  shows "j < length (instances (exec env st p)) \<and> instances (exec env st p) ! j = instances p ! j"
proof (cases st)
  case (New mf)
  with assms show ?thesis by (simp add: nth_append split: sum.splits)
next
  case (On i c)
  with assms show ?thesis by (simp split: prod.splits)
qed

lemma run_other:
  assumes "j < length (instances p)" and "\<forall>st \<in> set prog. \<not> acts_on j st"
  shows "j < length (instances (run env prog p)) \<and> instances (run env prog p) ! j = instances p ! j"
  using assms
proof (induction prog arbitrary: p)
  case Nil
  then show ?case by simp
next
  case (Cons st prog)
  from Cons.prems have e: "j < length (instances (exec env st p)) \<and>
      instances (exec env st p) ! j = instances p ! j"
    by (simp add: exec_other)
  with Cons.IH [of "exec env st p"] Cons.prems show ?case by simp
qed

lemma init_cached:
  assumes "init env mf = Inr self"
  shows "cached self = (None, None, None, None)"
  using assms by (auto simp: init_def cached_def split: sum.splits)

subsection \<open>The test double\<close>

lemmas test_defs = test_env_def new_world_def fresh_model_def compiled_world_def compiled_model_def

lemmas stage_defs = compile_def get_execution_engine_def get_optimized_module_def
  get_ir_from_frontend_def entry_present_def called_def

lemma init_test: "init test_env ''model.txt'' = Inr fresh_model"
  by (simp add: init_def test_env_def fresh_model_def)

lemma compile_test:
  "compile test_env (new_world, fresh_model) = (Inr (), compiled_world, compiled_model)"
  by (simp add: stage_defs test_defs)

lemma entry_present_compiled: "entry_present compiled_model"
  by (simp add: entry_present_def compiled_model_def)

lemma entry_func_test: "entry_func test_env addr (x # xs) 1 out = [x]"
  by (simp add: test_env_def)

section \<open>The claims\<close>

subsection \<open>C1: compile is idempotent once it has succeeded\<close>

text \<open>
  Claim C1 says that, for every Model and every \<open>N \<ge> 1\<close>, \<open>N\<close> calls of
  \<^verbatim>\<open>compile()\<close> leave the entry point of one call and invoke the frontend and the
  optimizer at most once each. A stage that raises caches nothing (lines 37 and 78 assign
  only after the stage has returned), so nothing stops the next call from running it
  again: with a frontend that raises, two calls invoke it twice; with a verifier that
  raises, two calls parse and verify twice. And the guard of line 110 takes a null
  function pointer for no entry point: after a module without \<open>forest_root\<close> is loaded,
  one call returns normally, binding address 0, while the second of two calls runs lines
  114 to 125 again and raises when the module is added a second time.
\<close>

theorem compile_reruns_stages:
  "count_calls Call_ir_from_model_file
     (fst (snd (compile_times failing_frontend_env 1 (new_world, fresh_model)))) = 1 \<and>
   count_calls Call_ir_from_model_file
     (fst (snd (compile_times failing_frontend_env 2 (new_world, fresh_model)))) = 2 \<and>
   count_calls Call_verify
     (fst (snd (compile_times failing_verify_env 2 (new_world, fresh_model)))) = 2 \<and>
   count_calls (Call_parse_assembly ''forest_root'')
     (fst (snd (compile_times failing_verify_env 2 (new_world, fresh_model)))) = 2 \<and>
   fst (compile_times test_env 1
          (snd (load_model_ir test_env (stored_world, fresh_model) ''other.ll''))) = Inr () \<and>
   c_entry_func (snd (snd (compile_times test_env 1
          (snd (load_model_ir test_env (stored_world, fresh_model) ''other.ll''))))) = Some 0 \<and>
   fst (compile_times test_env 2
          (snd (load_model_ir test_env (stored_world, fresh_model) ''other.ll''))) =
     Inl (LibraryError ''module already added to this engine'') \<and>
   count_calls Call_add_module (fst (snd (compile_times test_env 2
          (snd (load_model_ir test_env (stored_world, fresh_model) ''other.ll''))))) = 2"
  by (simp add: numeral_2_eq_2 load_model_ir_def stage_defs test_env_def failing_frontend_env_def
      failing_verify_env_def new_world_def stored_world_def fresh_model_def count_calls_def)

text \<open>
  Claim C1, amended. Let one call of \<^verbatim>\<open>compile()\<close> on a Model, from any state, leave
  an entry point (a function pointer that is not null). Then the call returned normally,
  and \<open>N \<ge> 1\<close> calls in a row return normally and leave the very state that one call
  leaves: the same entry point, the same caches and no further call into any collaborator;
  a call on that state returns at once. The calls together invoke the frontend
  (\<^verbatim>\<open>ir_from_model_file\<close>), the verifier and the pass manager at most once each, and
  \<^verbatim>\<open>parse_assembly\<close> at most once for the engine (only where no engine was cached)
  and at most once more for the optimizer (only where no optimized module was cached).
  Where the entry point was present before the first call, nothing at all is called.
\<close>

theorem compile_idempotent:
  assumes "1 \<le> N"
    and "compile env (w, self) = (r, w1, self1)"
    and "entry_present self1"
  shows "r = Inr () \<and>
         compile_times env N (w, self) = (Inr (), w1, self1) \<and>
         compile env (w1, self1) = (Inr (), w1, self1) \<and>
         count_calls Call_ir_from_model_file w1 \<le> count_calls Call_ir_from_model_file w + 1 \<and>
         count_calls Call_verify w1 \<le> count_calls Call_verify w + 1 \<and>
         count_calls Call_pm_run w1 \<le> count_calls Call_pm_run w + 1 \<and>
         parse_calls w1 \<le> parse_calls w + (if execution_engine self = None then 1 else 0)
                                         + (if IR_module self = None then 1 else 0) \<and>
         (entry_present self \<longrightarrow> w1 = w \<and> self1 = self)"
proof -
  obtain n where N: "N = Suc n" using assms(1) by (cases N) auto
  have r: "r = Inr ()"
  proof (cases r)
    case (Inl e)
    with assms(2) have "c_entry_func self1 = c_entry_func self"
      by (simp add: compile_Inl_entry)
    with assms(3) have "entry_present self" by (simp add: entry_present_def)
    with assms(2) show ?thesis by (simp add: compile_present)
  next
    case (Inr u)
    then show ?thesis by simp
  qed
  have again: "compile env (w1, self1) = (Inr (), w1, self1)"
    using assms(3) by (rule compile_present)
  have times: "compile_times env N (w, self) = (Inr (), w1, self1)"
    using assms(2,3) r by (simp add: N compile_times_present)
  have first: "w1 = w \<and> self1 = self" if "entry_present self"
    using that assms(2) by (simp add: compile_present)
  from r again times first compile_counts [OF assms(2)] show ?thesis by blast
qed

theorem compile_idempotent_witness:
  "(1::nat) \<le> 3 \<and>
   compile test_env (new_world, fresh_model) = (Inr (), compiled_world, compiled_model) \<and>
   entry_present compiled_model \<and>
   compile_times test_env 3 (new_world, fresh_model) = (Inr (), compiled_world, compiled_model) \<and>
   compile test_env (compiled_world, compiled_model) = (Inr (), compiled_world, compiled_model) \<and>
   count_calls Call_ir_from_model_file compiled_world = 1 \<and>
   count_calls Call_verify compiled_world = 1 \<and>
   count_calls Call_pm_run compiled_world = 1 \<and>
   parse_calls compiled_world = 2"
proof -
  have n: "(1::nat) \<le> 3" by simp
  have k: "count_calls Call_ir_from_model_file compiled_world = 1 \<and>
           count_calls Call_verify compiled_world = 1 \<and>
           count_calls Call_pm_run compiled_world = 1 \<and>
           parse_calls compiled_world = 2"
    by (simp add: count_calls_def parse_calls_def compiled_world_def)
  from compile_idempotent [OF n compile_test entry_present_compiled] n k compile_test
    entry_present_compiled
  show ?thesis by simp
qed

subsection \<open>C2: the row length is not checked\<close>

text \<open>
  Claim C2 says that \<^verbatim>\<open>predict\<close> raises its shape error, and calls no native code,
  when the element count is not a multiple of the feature count. The source never
  compares anything with \<^verbatim>\<open>num_feature()\<close>: on a Model of three features, compiled,
  a batch of one row of two values is flattened and handed to the native function.
\<close>

theorem predict_wrong_row_length:
  "num_feature compiled_model = 3 \<and>
   shape row_of_two = [1, 2] \<and>
   predict test_env (compiled_world, compiled_model) (PyNdarray row_of_two) =
     (Inr [1], called (Call_entry_func 4096 1) compiled_world, compiled_model)"
  by (simp add: num_feature_def compiled_model_def fresh_model_def row_of_two_def predict_def
      compile_def entry_present_def to_1d_ndarray_def c_int_numerals written_def entry_func_test)

text \<open>
  Claim C2, amended. On a compiled Model and for every \<^verbatim>\<open>float64\<close> array:
  \<^verbatim>\<open>predict\<close> raises \<^verbatim>\<open>ValueError\<close>, calling no native code and changing
  nothing, exactly when the array is not 2-dimensional; a 2-dimensional array of any row
  length, also one that differs from \<^verbatim>\<open>num_feature()\<close>, is flattened and passed to
  the entry point with the number of its rows, and one prediction per row comes back.
  The outcome is the same whatever feature count the descriptor holds.
\<close>

theorem predict_ignores_feature_count:
  assumes "entry_present self" and "elems a = Float64 ds"
  shows "fst (predict env (w, self\<lparr>general_info := gi\<rparr>) (PyNdarray a)) =
           fst (predict env (w, self) (PyNdarray a)) \<and>
         (case shape a of
            [n, k] \<Rightarrow>
              (\<exists>addr ys. predict env (w, self) (PyNdarray a) =
                 (Inr ys, called (Call_entry_func addr (int n)) w, self) \<and> length ys = n)
          | other_shape \<Rightarrow>
              predict env (w, self) (PyNdarray a) =
                (Inl (ValueError ''Data must be 2 dimensional''), w, self))"
proof -
  have c: "compile env (w, s) = (Inr (), w, s)" if "entry_present s" for s :: "('a, 'b, 'c, 'd) model"
    using that by (rule compile_present)
  have p: "entry_present (self\<lparr>general_info := gi\<rparr>)"
    using assms(1) by (simp add: entry_present_def)
  have same: "fst (predict env (w, self\<lparr>general_info := gi\<rparr>) (PyNdarray a)) =
           fst (predict env (w, self) (PyNdarray a))"
    using c [OF p] c [OF assms(1)]
    by (simp add: predict_def Let_def split: sum.splits option.splits prod.splits)
  have by_shape: "(case shape a of
            [n, k] \<Rightarrow>
              (\<exists>addr ys. predict env (w, self) (PyNdarray a) =
                 (Inr ys, called (Call_entry_func addr (int n)) w, self) \<and> length ys = n)
          | other_shape \<Rightarrow>
              predict env (w, self) (PyNdarray a) =
                (Inl (ValueError ''Data must be 2 dimensional''), w, self))"
  proof (cases "\<exists>n k. shape a = [n, k]")
    case True
    then obtain n k where s: "shape a = [n, k]" by blast
    have "flat_float64 env a ds" using assms(2) by (simp add: flat_float64_def)
    then have t: "to_1d_ndarray env (PyNdarray a) = Inr (ds, n)"
      using s by (simp add: to_1d_ndarray_2d)
    from predict_after_compile [OF c [OF assms(1)] assms(1) t] show ?thesis
      by (auto simp: s)
  next
    case False
    then have t: "to_1d_ndarray env (PyNdarray a) = Inl (ValueError ''Data must be 2 dimensional'')"
      by (auto simp: to_1d_ndarray_def split: list.splits)
    from predict_rejected [OF c [OF assms(1)] t] False show ?thesis
      by (auto split: list.splits)
  qed
  from same by_shape show ?thesis by simp
qed

theorem predict_ignores_feature_count_witness:
  "entry_present compiled_model \<and> elems row_of_two = Float64 [1, 2] \<and>
   fst (predict test_env
          (compiled_world,
           compiled_model\<lparr>general_info := \<lparr>objective = ''regression'', max_feature_idx = 9\<rparr>\<rparr>)
          (PyNdarray row_of_two)) =
     fst (predict test_env (compiled_world, compiled_model) (PyNdarray row_of_two)) \<and>
   (\<exists>addr ys. predict test_env (compiled_world, compiled_model) (PyNdarray row_of_two) =
      (Inr ys, called (Call_entry_func addr 1) compiled_world, compiled_model) \<and>
      length ys = 1)"
proof -
  have e: "elems row_of_two = Float64 [1, 2]" by (simp add: row_of_two_def)
  have s: "shape row_of_two = [1, 2]" by (simp add: row_of_two_def)
  from predict_ignores_feature_count [OF entry_present_compiled e, of test_env compiled_world
    "\<lparr>objective = ''regression'', max_feature_idx = 9\<rparr>"]
  show ?thesis using entry_present_compiled e by (simp add: s)
qed

subsection \<open>C3: save_model_ir fills the caches it reads\<close>

text \<open>
  Claim C3 says that \<^verbatim>\<open>save_model_ir\<close> changes no cached field, also on a fresh
  Model. It gets the module through \<^verbatim>\<open>_get_optimized_module\<close>, which on a fresh
  Model runs the frontend and the optimizer and caches what they return.
\<close>

theorem save_model_ir_fills_caches:
  "IR_module_frontend fresh_model = None \<and> IR_module fresh_model = None \<and>
   save_model_ir test_env (new_world, fresh_model) ''model.ll'' =
     (Inr (),
      \<lparr>calls = [Call_ir_from_model_file, Call_parse_assembly ''forest_root'', Call_verify,
                Call_pm_run, Call_write_text ''model.ll''],
       files = no_files(''model.ll'' := Inr ''forest_root''), write_error = (\<lambda>p. None)\<rparr>,
      fresh_model\<lparr>IR_module_frontend := Some ''forest_root'', IR_module := Some ''forest_root''\<rparr>)"
  by (simp add: save_model_ir_def get_optimized_module_def get_ir_from_frontend_def called_def
      test_env_def new_world_def fresh_model_def)

text \<open>
  Claim C3, amended. \<^verbatim>\<open>save_model_ir\<close> never changes the engine or the entry point,
  and it changes a file only when it returns normally: the file then holds the text of the
  optimized module. Where the optimized module is present, no field of the Model changes.
  Where it is absent the module is built first: when \<^verbatim>\<open>save_model_ir\<close> returns
  normally, the optimized module and the frontend module are present afterwards.
\<close>

theorem save_model_ir_effect:
  assumes "save_model_ir env (w, self) path = (r, w1, self1)"
  shows "execution_engine self1 = execution_engine self \<and>
         c_entry_func self1 = c_entry_func self \<and>
         (case r of
            Inl e \<Rightarrow> files w1 = files w
          | Inr u \<Rightarrow>
              (\<exists>md. IR_module self1 = Some md \<and>
                    files w1 = (files w)(path := Inr (module_str env md)))) \<and>
         (case IR_module self of
            Some md \<Rightarrow> self1 = self
          | None \<Rightarrow>
              (case r of
                 Inl e \<Rightarrow> True
               | Inr u \<Rightarrow> IR_module self1 \<noteq> None \<and> IR_module_frontend self1 \<noteq> None))"
proof -
  obtain r2 wb sb where m: "get_optimized_module env (w, self) = (r2, wb, sb)"
    by (metis prod_cases3)
  have s: "self1 = sb"
    using assms m by (auto simp: save_model_ir_def Let_def split: sum.splits option.splits)
  have hit: "IR_module self = Some md \<Longrightarrow> r2 = Inr md \<and> sb = self" for md
    using m by (simp add: get_optimized_module_def)
  have built: "r2 = Inr md \<Longrightarrow> IR_module sb = Some md" for md
    using m
    by (auto simp: get_optimized_module_def get_ir_from_frontend_def Let_def
        split: option.splits sum.splits prod.splits)
  have miss: "IR_module self = None \<Longrightarrow> r2 = Inr md \<Longrightarrow> IR_module_frontend sb \<noteq> None" for md
    using m
    by (auto simp: get_optimized_module_def get_ir_from_frontend_def Let_def
        split: option.splits sum.splits prod.splits)
  have out: "(case r of
                Inl e \<Rightarrow> files w1 = files wb
              | Inr u \<Rightarrow> \<exists>md. r2 = Inr md \<and> files w1 = (files wb)(path := Inr (module_str env md)))"
    using assms m
    by (auto simp: save_model_ir_def called_def Let_def split: sum.splits option.splits)
  show ?thesis
    using get_optimized_module_frame [OF m] s hit built miss out
    by (cases "IR_module self"; cases r) auto
qed

theorem save_model_ir_effect_witness:
  "save_model_ir test_env (compiled_world, compiled_model) ''model.ll'' =
     (Inr (), (called (Call_write_text ''model.ll'') compiled_world)
                \<lparr>files := no_files(''model.ll'' := Inr ''forest_root'')\<rparr>, compiled_model) \<and>
   IR_module compiled_model = Some ''forest_root'' \<and>
   files ((called (Call_write_text ''model.ll'') compiled_world)
                \<lparr>files := no_files(''model.ll'' := Inr ''forest_root'')\<rparr>) =
     (files compiled_world)(''model.ll'' := Inr (module_str test_env ''forest_root''))"
proof -
  have s: "save_model_ir test_env (compiled_world, compiled_model) ''model.ll'' =
     (Inr (), (called (Call_write_text ''model.ll'') compiled_world)
                \<lparr>files := no_files(''model.ll'' := Inr ''forest_root'')\<rparr>, compiled_model)"
    by (simp add: save_model_ir_def get_optimized_module_def called_def test_defs)
  have i: "IR_module compiled_model = Some ''forest_root''"
    by (simp add: compiled_model_def)
  from save_model_ir_effect [OF s] s i show ?thesis by simp
qed

subsection \<open>C4: predict compiles before it looks at the data\<close>

text \<open>
  Claim C4 says that a 1-dimensional array is refused before any engine is built. Line
  128 calls \<^verbatim>\<open>compile()\<close> before line 130 validates the data: on a fresh Model the
  engine is built and every stage runs, and only then is the error raised.
\<close>

theorem predict_compiles_before_validation:
  "execution_engine fresh_model = None \<and>
   predict test_env (new_world, fresh_model) (PyNdarray vector_of_three) =
     (Inl (ValueError ''Data must be 2 dimensional''), compiled_world, compiled_model) \<and>
   execution_engine compiled_model = Some [''forest_root''] \<and>
   count_calls Call_create_mcjit_compiler compiled_world = 1"
proof -
  have "predict test_env (new_world, fresh_model) (PyNdarray vector_of_three) =
     (Inl (ValueError ''Data must be 2 dimensional''), compiled_world, compiled_model)"
    by (simp add: predict_def compile_test to_1d_ndarray_def vector_of_three_def)
  then show ?thesis
    by (simp add: count_calls_def compiled_world_def compiled_model_def fresh_model_def)
qed

text \<open>
  Claim C4, amended. For an array that is not 2-dimensional \<^verbatim>\<open>predict\<close> first runs
  \<^verbatim>\<open>compile()\<close>. If that raises, its exception is the outcome; if not,
  \<^verbatim>\<open>predict\<close> raises \<^verbatim>\<open>ValueError\<close> and leaves the state that
  \<^verbatim>\<open>compile()\<close> left. The native function is called in neither case.
\<close>

theorem predict_not_2d_after_compile:
  assumes "length (shape a) \<noteq> 2"
  shows "predict env (w, self) (PyNdarray a) =
           (case compile env (w, self) of
              (Inl e, s1) \<Rightarrow> (Inl e, s1)
            | (Inr u, s1) \<Rightarrow> (Inl (ValueError ''Data must be 2 dimensional''), s1)) \<and>
         native_calls (fst (snd (predict env (w, self) (PyNdarray a)))) = native_calls w"
proof -
  have t: "to_1d_ndarray env (PyNdarray a) = Inl (ValueError ''Data must be 2 dimensional'')"
    using assms by (auto simp: to_1d_ndarray_def split: list.splits)
  obtain r w1 self1 where c: "compile env (w, self) = (r, w1, self1)"
    by (metis prod_cases3)
  have p: "predict env (w, self) (PyNdarray a) =
           (case r of Inl e \<Rightarrow> (Inl e, w1, self1)
            | Inr u \<Rightarrow> (Inl (ValueError ''Data must be 2 dimensional''), w1, self1))"
    by (simp add: predict_def c t split: sum.splits)
  then have "fst (snd (predict env (w, self) (PyNdarray a))) = w1"
    by (simp split: sum.splits)
  with p c compile_native [OF c] show ?thesis
    by (simp split: sum.splits)
qed

theorem predict_not_2d_after_compile_witness:
  "length (shape vector_of_three) \<noteq> 2 \<and>
   predict test_env (new_world, fresh_model) (PyNdarray vector_of_three) =
     (Inl (ValueError ''Data must be 2 dimensional''), compiled_world, compiled_model) \<and>
   native_calls (fst (snd (predict test_env (new_world, fresh_model) (PyNdarray vector_of_three)))) =
     native_calls new_world"
proof -
  have l: "length (shape vector_of_three) \<noteq> 2" by (simp add: vector_of_three_def)
  have n: "native_calls compiled_world = native_calls new_world"
    by (simp add: native_calls_def compiled_world_def new_world_def)
  from predict_not_2d_after_compile [OF l, of test_env new_world fresh_model] l n
  show ?thesis by (simp add: compile_test)
qed

subsection \<open>C5: a valid batch\<close>

text \<open>
  Claim C5. Let \<^verbatim>\<open>compile()\<close> succeed and leave an entry point, and let the data be
  a 2-dimensional array of \<open>n\<close> rows, or a list that numpy converts to one. Let \<open>buf\<close> be
  its elements in row-major order as doubles: the elements themselves where the array is
  \<^verbatim>\<open>float64\<close>, and otherwise, element by element, what \<open>to_float64\<close> converts them
  to. Then \<^verbatim>\<open>predict\<close> hands the native function exactly \<open>buf\<close>, the count \<open>n\<close>
  (which the native code receives as a C \<^verbatim>\<open>int\<close>, \<open>n\<close> itself below \<open>2^31\<close>) and an
  output buffer of \<open>n\<close> zeros, calls it once, and returns the objective function applied
  to each element of the output buffer: \<open>n\<close> values, one per row.
\<close>

theorem predict_valid_batch:
  assumes "compile env (w, self) = (Inr (), w1, self1)" and "entry_present self1"
    and "arg = PyNdarray a \<or> (\<exists>l. arg = PyList l \<and> np_array env l = Inr a)"
    and "shape a = [n, k]"
    and "elems a = Float64 buf \<or>
         (\<exists>xs. elems a = Other xs \<and> map (to_float64 env) xs = map Inr buf)"
  shows "\<exists>addr out.
           c_entry_func self1 = Some addr \<and> addr \<noteq> 0 \<and>
           out = written (replicate n 0) (entry_func env addr buf (c_int (int n)) (replicate n 0)) \<and>
           predict env (w, self) arg =
             (Inr (map (objective_transf self1) out),
              called (Call_entry_func addr (int n)) w1, self1) \<and>
           length (map (objective_transf self1) out) = n \<and>
           (n < 2 ^ 31 \<longrightarrow> c_int (int n) = int n)"
proof -
  have "flat_float64 env a buf"
    using assms(5) by (auto simp: flat_float64_def)
  with assms(3,4) have t: "to_1d_ndarray env arg = Inr (buf, n)"
    by (rule to_1d_ndarray_2d)
  from predict_after_compile [OF assms(1,2) t] show ?thesis
    by (auto simp: c_int_small)
qed

theorem predict_valid_batch_witness:
  "compile test_env (new_world, fresh_model) = (Inr (), compiled_world, compiled_model) \<and>
   entry_present compiled_model \<and>
   shape int_batch_2x3 = [2, 3] \<and>
   elems int_batch_2x3 = Other [1, 2, 3, 4, 5, 6] \<and>
   map (to_float64 test_env) [1, 2, 3, 4, 5, 6] = map Inr [1, 2, 3, 4, 5, 6] \<and>
   predict test_env (new_world, fresh_model) (PyNdarray int_batch_2x3) =
     (Inr [1, 4], called (Call_entry_func 4096 2) compiled_world, compiled_model)"
proof -
  have c: "compile test_env (new_world, fresh_model) = (Inr (), compiled_world, compiled_model)"
    by (rule compile_test)
  have a: "PyNdarray int_batch_2x3 = PyNdarray int_batch_2x3 \<or>
      (\<exists>l. PyNdarray int_batch_2x3 = PyList l \<and> np_array test_env l = Inr int_batch_2x3)"
    by simp
  have s: "shape int_batch_2x3 = [2, 3]" by (simp add: int_batch_2x3_def)
  have x: "elems int_batch_2x3 = Other [1, 2, 3, 4, 5, 6]" by (simp add: int_batch_2x3_def)
  have m: "map (to_float64 test_env) [1, 2, 3, 4, 5, 6] = map Inr [1, 2, 3, 4, 5, 6]"
    by (simp add: test_env_def)
  from x m have f: "elems int_batch_2x3 = Float64 [1, 2, 3, 4, 5, 6] \<or>
      (\<exists>xs. elems int_batch_2x3 = Other xs \<and>
            map (to_float64 test_env) xs = map Inr [1, 2, 3, 4, 5, 6])"
    by simp
  have e: "c_entry_func compiled_model = Some 4096"
    by (simp add: compiled_model_def)
  have n: "entry_func test_env 4096 [1, 2, 3, 4, 5, 6] 2 out = [1, 4]" for out
    by (simp add: test_env_def upt_rec)
  have o: "objective_transf compiled_model = (\<lambda>x. x)"
    by (simp add: compiled_model_def fresh_model_def)
  from predict_valid_batch [OF c entry_present_compiled a s f] e
  have "predict test_env (new_world, fresh_model) (PyNdarray int_batch_2x3) =
     (Inr [1, 4], called (Call_entry_func 4096 2) compiled_world, compiled_model)"
    by (auto simp: c_int_numerals n o written_def numeral_2_eq_2)
  with c s x m entry_present_compiled show ?thesis by simp
qed

subsection \<open>C6: a missing entry symbol\<close>

text \<open>
  Claim C6 says that \<^verbatim>\<open>compile()\<close> fails, and sets no entry point, when the
  compiled module lacks \<open>forest_root\<close>. Lines 121 to 125 bind whatever address the
  engine returns and test nothing. Here a module that defines only \<open>other_root\<close> is
  loaded and compiled: the lookup returns the null address, \<^verbatim>\<open>compile()\<close>
  returns normally and the entry point is the function pointer of address 0.
\<close>

theorem compile_binds_null_address:
  "fst (load_model_ir test_env (stored_world, fresh_model) ''other.ll'') = Inr () \<and>
   fst (compile test_env (snd (load_model_ir test_env (stored_world, fresh_model) ''other.ll''))) =
     Inr () \<and>
   execution_engine (snd (snd (compile test_env
      (snd (load_model_ir test_env (stored_world, fresh_model) ''other.ll''))))) =
     Some [''other_root''] \<and>
   get_function_address test_env [''other_root''] ''forest_root'' = Inr 0 \<and>
   c_entry_func (snd (snd (compile test_env
      (snd (load_model_ir test_env (stored_world, fresh_model) ''other.ll''))))) = Some 0"
  by (simp add: load_model_ir_def stage_defs test_env_def stored_world_def fresh_model_def)

text \<open>
  Claim C6, amended. \<^verbatim>\<open>compile()\<close> on a Model without an entry point raises only
  what one of its collaborators raises, and whenever it raises it leaves the entry point
  as it was. It does not check the address it resolves: when it returns normally, the
  entry point is the binding of the address that the engine returned for
  \<open>forest_root\<close>, the null address included.
\<close>

theorem compile_symbol_resolution:
  assumes "compile env (w, self) = (r, w1, self1)" and "\<not> entry_present self"
  shows "case r of
           Inl e \<Rightarrow> raised_by_collaborator env e \<and> c_entry_func self1 = c_entry_func self
         | Inr u \<Rightarrow>
             (\<exists>g a. execution_engine self1 = Some g \<and>
                    get_function_address env g ''forest_root'' = Inr a \<and>
                    c_entry_func self1 = Some a)"
  using assms compile_raised compile_Inl_entry compile_Inr_resolved
  by (cases r) (simp_all, blast+)

theorem compile_symbol_resolution_witness:
  "compile test_env (new_world, fresh_model) = (Inr (), compiled_world, compiled_model) \<and>
   \<not> entry_present fresh_model \<and>
   (\<exists>g a. execution_engine compiled_model = Some g \<and>
      get_function_address test_env g ''forest_root'' = Inr a \<and>
      c_entry_func compiled_model = Some a)"
proof -
  have n: "\<not> entry_present fresh_model"
    by (simp add: entry_present_def fresh_model_def)
  from compile_symbol_resolution [OF compile_test n] compile_test n show ?thesis by simp
qed

subsection \<open>C7: a blob that does not parse\<close>

text \<open>
  Claim C7. When the text read from the file does not parse, \<^verbatim>\<open>load_model_ir\<close>
  raises the parser's error and changes no field of the Model: the optimized module and
  every other cache are as they were, and no file is changed. More generally, whenever
  \<^verbatim>\<open>load_model_ir\<close> raises, the Model is as it was.
\<close>

theorem load_model_ir_atomic:
  assumes "files w path = Inr blob" and "parse_assembly env blob = Inl e"
  shows "load_model_ir env (w, self) path =
           (Inl e, called (Call_parse_assembly blob) (called (Call_read_text path) w), self) \<and>
         files (called (Call_parse_assembly blob) (called (Call_read_text path) w)) = files w \<and>
         (\<forall>p e1 w1 self1. load_model_ir env (w, self) p = (Inl e1, w1, self1) \<longrightarrow> self1 = self)"
  using assms
  by (auto simp: load_model_ir_def called_def Let_def split: sum.splits)

theorem load_model_ir_atomic_witness:
  "files stored_world ''bad.ll'' = Inr ''garbage'' \<and>
   parse_assembly test_env ''garbage'' = Inl (LibraryError ''LLVM IR parsing error'') \<and>
   load_model_ir test_env (stored_world, compiled_model) ''bad.ll'' =
     (Inl (LibraryError ''LLVM IR parsing error''),
      called (Call_parse_assembly ''garbage'') (called (Call_read_text ''bad.ll'') stored_world),
      compiled_model)"
proof -
  have f: "files stored_world ''bad.ll'' = Inr ''garbage''"
    by (simp add: stored_world_def)
  have p: "parse_assembly test_env ''garbage'' = Inl (LibraryError ''LLVM IR parsing error'')"
    by (simp add: test_env_def)
  from load_model_ir_atomic [OF f p] f p show ?thesis by simp
qed

subsection \<open>C8: lists and arrays, not tuples\<close>

text \<open>
  Claim C8 says that \<^verbatim>\<open>predict\<close> accepts any nested sequence, a tuple of rows too.
  Line 139 converts lists only, and line 145 refuses whatever is not an array by then.
\<close>

theorem predict_rejects_tuple:
  "predict test_env (compiled_world, compiled_model) (PyTuple [[1, 2, 3]]) =
     (Inl (ValueError ''Expecting list or numpy.ndarray''), compiled_world, compiled_model)"
  by (simp add: predict_def compile_present entry_present_compiled to_1d_ndarray_def)

text \<open>
  Claim C8, amended. Once \<^verbatim>\<open>compile()\<close> has left an entry point, \<^verbatim>\<open>predict\<close> accepts
  a 2-dimensional numeric array, or a list that numpy converts to one, and returns a
  1-dimensional array with one value per row; a tuple is refused with
  \<^verbatim>\<open>ValueError\<close>, whatever it holds.
\<close>

theorem predict_list_or_ndarray:
  assumes "compile env (w, self) = (Inr (), w1, self1)" and "entry_present self1"
    and "arg = PyNdarray a \<or> (\<exists>l. arg = PyList l \<and> np_array env l = Inr a)"
    and "shape a = [n, k]"
    and "flat_float64 env a buf"
  shows "(\<exists>ys w2. predict env (w, self) arg = (Inr ys, w2, self1) \<and> length ys = n) \<and>
         predict env (w, self) (PyTuple t) =
           (Inl (ValueError ''Expecting list or numpy.ndarray''), w1, self1)"
proof -
  have t: "to_1d_ndarray env arg = Inr (buf, n)"
    using assms(3-5) by (rule to_1d_ndarray_2d)
  have "to_1d_ndarray env (PyTuple t) = Inl (ValueError ''Expecting list or numpy.ndarray'')"
    by (simp add: to_1d_ndarray_def)
  with predict_after_compile [OF assms(1,2) t] predict_rejected [OF assms(1)]
  show ?thesis by auto
qed

theorem predict_list_or_ndarray_witness:
  "compile test_env (new_world, fresh_model) = (Inr (), compiled_world, compiled_model) \<and>
   entry_present compiled_model \<and>
   shape batch_2x3 = [2, 3] \<and> flat_float64 test_env batch_2x3 [1, 2, 3, 4, 5, 6] \<and>
   (\<exists>ys w2. predict test_env (new_world, fresh_model) (PyNdarray batch_2x3) =
      (Inr ys, w2, compiled_model) \<and> length ys = 2) \<and>
   predict test_env (new_world, fresh_model) (PyTuple [[1, 2, 3]]) =
     (Inl (ValueError ''Expecting list or numpy.ndarray''), compiled_world, compiled_model)"
proof -
  have a: "PyNdarray batch_2x3 = PyNdarray batch_2x3 \<or>
      (\<exists>l. PyNdarray batch_2x3 = PyList l \<and> np_array test_env l = Inr batch_2x3)"
    by simp
  have s: "shape batch_2x3 = [2, 3]" by (simp add: batch_2x3_def)
  have f: "flat_float64 test_env batch_2x3 [1, 2, 3, 4, 5, 6]"
    by (simp add: flat_float64_def batch_2x3_def)
  from predict_list_or_ndarray [OF compile_test entry_present_compiled a s f, of "[[1, 2, 3]]"]
    compile_test entry_present_compiled s f
  show ?thesis by simp
qed

subsection \<open>C9: each instance has its own caches\<close>

text \<open>
  Claim C9. In a program of several Models, whatever is done to the other instances
  (methods called on them, new instances created), the four cached attributes of an
  instance that no statement acts on read as they did before, and so does every other
  field of it; and a new instance starts with all four absent. The attributes declared
  on the class are never assigned: each assignment of the module goes to the instance.
\<close>

theorem instances_independent:
  assumes "j < length (instances p)" and "list_all (\<lambda>st. \<not> acts_on j st) prog"
  shows "cached (instances (run env prog p) ! j) = cached (instances p ! j) \<and>
         instances (run env prog p) ! j = instances p ! j \<and>
         (\<forall>mf self. init env mf = Inr self \<longrightarrow> cached self = (None, None, None, None))"
proof -
  from assms(2) have "\<forall>st \<in> set prog. \<not> acts_on j st"
    by (simp add: list_all_iff)
  from run_other [OF assms(1) this] init_cached show ?thesis by metis
qed

theorem instances_independent_witness:
  "1 < length (instances two_models) \<and>
   list_all (\<lambda>st. \<not> acts_on 1 st) populate_first \<and>
   instances (run test_env populate_first two_models) ! 0 = compiled_model \<and>
   instances (run test_env populate_first two_models) ! 1 = fresh_model \<and>
   cached (instances (run test_env populate_first two_models) ! 1) = (None, None, None, None)"
proof -
  have l: "1 < length (instances two_models)" by (simp add: two_models_def)
  have a: "list_all (\<lambda>st. \<not> acts_on 1 st) populate_first" by (simp add: populate_first_def)
  have z: "instances (run test_env populate_first two_models) ! 0 = compiled_model"
    by (simp add: populate_first_def two_models_def stage_defs test_defs save_model_ir_def
        init_def)
  have f: "instances two_models ! 1 = fresh_model" by (simp add: two_models_def)
  have c: "cached fresh_model = (None, None, None, None)"
    by (simp add: cached_def fresh_model_def)
  from instances_independent [OF l a, of test_env] l a z f c show ?thesis
    by simp
qed

subsection \<open>C10: a batch of no rows\<close>

text \<open>
  Claim C10. On a compiled Model, \<^verbatim>\<open>predict\<close> on a \<^verbatim>\<open>float64\<close> array of shape
  \<open>(0, k)\<close> raises nothing: the entry point is called once with the count 0 and the
  result is the empty array.
\<close>

theorem predict_zero_rows:
  assumes "entry_present self" and "shape a = [0, k]" and "elems a = Float64 ds"
  shows "\<exists>addr. c_entry_func self = Some addr \<and>
           predict env (w, self) (PyNdarray a) =
             (Inr [], called (Call_entry_func addr 0) w, self)"
proof -
  have c: "compile env (w, self) = (Inr (), w, self)"
    using assms(1) by (rule compile_present)
  have "flat_float64 env a ds"
    using assms(3) by (simp add: flat_float64_def)
  then have t: "to_1d_ndarray env (PyNdarray a) = Inr (ds, 0)"
    using assms(2) by (simp add: to_1d_ndarray_2d)
  from predict_after_compile [OF c assms(1) t] show ?thesis
    by (auto simp: written_def c_int_def)
qed

theorem predict_zero_rows_witness:
  "entry_present compiled_model \<and> shape no_rows = [0, 3] \<and> elems no_rows = Float64 [] \<and>
   predict test_env (compiled_world, compiled_model) (PyNdarray no_rows) =
     (Inr [], called (Call_entry_func 4096 0) compiled_world, compiled_model)"
proof -
  have s: "shape no_rows = [0, 3]" by (simp add: no_rows_def)
  have e: "elems no_rows = Float64 []" by (simp add: no_rows_def)
  have c: "c_entry_func compiled_model = Some 4096" by (simp add: compiled_model_def)
  from predict_zero_rows [OF entry_present_compiled s e, of test_env compiled_world] c
    entry_present_compiled s e
  show ?thesis by simp
qed

end
